theory Spec2Isabelle
  imports Main
begin

section \<open>Values exchanged with the remote API\<close>

text \<open>
  The token and the username reach \<open>getLoggedInUser\<close> as a string or not at all
  (\<open>undefined\<close> for a missing argument, \<open>null\<close> from an empty local storage).
  \<open>truthy\<close> is JavaScript's truthiness on these values, \<open>to_string\<close> the conversion
  a template literal applies.
\<close>

datatype jsval = Undefined | Null | Str string

definition truthy :: "jsval \<Rightarrow> bool" where
  "truthy v = (case v of Undefined \<Rightarrow> False | Null \<Rightarrow> False | Str s \<Rightarrow> s \<noteq> [])"

definition to_string :: "jsval \<Rightarrow> string" where
  "to_string v = (case v of Undefined \<Rightarrow> ''undefined'' | Null \<Rightarrow> ''null'' | Str s \<Rightarrow> s)"

text \<open>The plain objects of a response body: a story record and a user record.\<close>

record storyRecord =
  sr_author :: string
  sr_title :: string
  sr_url :: string
  sr_username :: string
  sr_storyId :: string
  sr_createdAt :: string
  sr_updatedAt :: string

record userRecord =
  ur_username :: string
  ur_name :: string
  ur_createdAt :: string
  ur_updatedAt :: string
  ur_favorites :: "storyRecord list"
  ur_stories :: "storyRecord list"

text \<open>
  A request as \<open>axios\<close> receives it: the method, the URL and what travels with it
  (a body, or the query parameters of a GET).
\<close>

datatype http_method = GET | POST | DELETE

datatype payload =
    NoPayload
  | TokenBody jsval
  | StoryBody jsval string string string
  | SignupBody string string string
  | LoginBody string string
  | TokenParams jsval

record request =
  req_method :: http_method
  req_url :: string
  req_data :: payload

text \<open>
  \<open>response.data\<close>, by the shape the caller reads: \<open>{stories}\<close>, \<open>{story}\<close>,
  \<open>{user, token}\<close> (the token \<open>Undefined\<close> when the body has none), or anything else.
\<close>

datatype response =
    StoriesData "storyRecord list"
  | StoryData storyRecord
  | UserData userRecord jsval
  | OtherData

text \<open>
  A rejected request surfaces as the error \<open>axios\<close> threw; reading a field of a
  missing part of the response body is JavaScript's \<open>TypeError\<close>.
\<close>

datatype error = NetworkError | ApiError | TypeError

type_synonym network = "request \<Rightarrow> error + response"

section \<open>The three classes\<close>

type_synonym addr = nat

record Story =
  author :: string
  title :: string
  url :: string
  username :: string
  storyId :: string
  createdAt :: string
  updatedAt :: string

text \<open>
  Arrays are mutable objects: \<open>unshift\<close> and \<open>push\<close> change the array that every
  holder of the reference sees, \<open>filter\<close> and \<open>map\<close> build a new one. The fields
  \<open>favorites\<close>, \<open>ownStories\<close> and \<open>stories\<close> therefore hold addresses into a store
  of arrays.
\<close>

record User =
  username :: string
  name :: string
  createdAt :: string
  updatedAt :: string
  loginToken :: jsval
  favorites :: addr
  ownStories :: addr

record StoryList =
  stories :: addr

text \<open>
  The world outside the objects: the store of arrays, the next free address, and the
  requests sent so far, oldest first.
\<close>

record world =
  heap :: "addr \<Rightarrow> Story list"
  nxt :: addr
  sent :: "request list"

definition allocated :: "world \<Rightarrow> addr \<Rightarrow> bool" where
  "allocated w a = (a < nxt w)"

text \<open>
  A list and a user are well-formed in a world when their three arrays exist in the store
  and are three different arrays. The constructor of \<open>User\<close> and every \<open>map\<close> and
  \<open>filter\<close> make a new array, so the objects this layer builds are of this kind, and
  its methods keep them so (lemmas \<open>getStories_separated\<close> to
  \<open>removeFavorite_separated\<close> below).
\<close>

definition separated :: "StoryList \<Rightarrow> User \<Rightarrow> world \<Rightarrow> bool" where
  "separated sl u w =
     (allocated w (stories sl) \<and> allocated w (favorites u) \<and> allocated w (ownStories u)
      \<and> stories sl \<noteq> favorites u \<and> stories sl \<noteq> ownStories u
      \<and> favorites u \<noteq> ownStories u)"

section \<open>Array primitives\<close>

definition alloc :: "Story list \<Rightarrow> world \<Rightarrow> addr \<times> world" where
  "alloc xs w = (nxt w, w\<lparr>heap := (heap w)(nxt w := xs), nxt := nxt w + 1\<rparr>)"

definition unshift :: "addr \<Rightarrow> Story \<Rightarrow> world \<Rightarrow> world" where
  "unshift a x w = w\<lparr>heap := (heap w)(a := x # heap w a)\<rparr>"

definition push :: "addr \<Rightarrow> Story \<Rightarrow> world \<Rightarrow> world" where
  "push a x w = w\<lparr>heap := (heap w)(a := heap w a @ [x])\<rparr>"

definition array_filter :: "(Story \<Rightarrow> bool) \<Rightarrow> addr \<Rightarrow> world \<Rightarrow> addr \<times> world" where
  "array_filter p a w = alloc (filter p (heap w a)) w"

definition array_map :: "('a \<Rightarrow> Story) \<Rightarrow> 'a list \<Rightarrow> world \<Rightarrow> addr \<times> world" where
  "array_map f xs w = alloc (map f xs) w"

definition array_some :: "(Story \<Rightarrow> bool) \<Rightarrow> addr \<Rightarrow> world \<Rightarrow> bool" where
  "array_some p a w = list_ex p (heap w a)"

section \<open>The network\<close>

definition BASE_URL :: string where
  "BASE_URL = ''https://hack-or-snooze-v3.herokuapp.com''"

definition axios :: "network \<Rightarrow> request \<Rightarrow> world \<Rightarrow> (error + response) \<times> world" where
  "axios net req w = (net req, w\<lparr>sent := sent w @ [req]\<rparr>)"

section \<open>Constructors\<close>

definition new_Story :: "storyRecord \<Rightarrow> Story" where
  "new_Story storyObj =
     \<lparr>author = sr_author storyObj, title = sr_title storyObj, url = sr_url storyObj,
      username = sr_username storyObj, storyId = sr_storyId storyObj,
      createdAt = sr_createdAt storyObj, updatedAt = sr_updatedAt storyObj\<rparr>"

definition new_User :: "userRecord \<Rightarrow> world \<Rightarrow> User \<times> world" where
  "new_User userObj w =
     (let (fav, w1) = alloc [] w;
          (own, w2) = alloc [] w1
      in (\<lparr>username = ur_username userObj, name = ur_name userObj,
           createdAt = ur_createdAt userObj, updatedAt = ur_updatedAt userObj,
           loginToken = Str [], favorites = fav, ownStories = own\<rparr>, w2))"

definition new_StoryList :: "addr \<Rightarrow> StoryList" where
  "new_StoryList a = \<lparr>stories = a\<rparr>"

section \<open>StoryList\<close>

text \<open>
  Every method takes the network (what the server answers to a request) and the world,
  and returns its outcome, the objects it was called on as it leaves them, and the new
  world. An outcome \<open>Inl e\<close> is the exception the \<open>async\<close> method rejects with.
\<close>

definition getStories :: "network \<Rightarrow> world \<Rightarrow> (error + StoryList) \<times> world" where
  "getStories net w =
     (let (response, w1) =
            axios net \<lparr>req_method = GET, req_url = BASE_URL @ ''/stories'',
                       req_data = NoPayload\<rparr> w
      in case response of
           Inl e \<Rightarrow> (Inl e, w1)
         | Inr (StoriesData rs) \<Rightarrow>
             (let (a, w2) = array_map new_Story rs w1
              in (Inr (new_StoryList a), w2))
         | Inr _ \<Rightarrow> (Inl TypeError, w1))"

definition addStory ::
  "network \<Rightarrow> StoryList \<Rightarrow> User \<Rightarrow> string \<times> string \<times> string \<Rightarrow> world
     \<Rightarrow> (error + Story) \<times> StoryList \<times> User \<times> world" where
  "addStory net this user newStory w =
     (let (title', author', url') = newStory;
          token = loginToken user;
          (response, w1) =
            axios net \<lparr>req_method = POST, req_url = BASE_URL @ ''/stories'',
                       req_data = StoryBody token title' author' url'\<rparr> w
      in case response of
           Inl e \<Rightarrow> (Inl e, this, user, w1)
         | Inr (StoryData r) \<Rightarrow>
             (let story = new_Story r;
                  w2 = unshift (stories this) story w1;
                  w3 = unshift (ownStories user) story w2
              in (Inr story, this, user, w3))
         | Inr _ \<Rightarrow> (Inl TypeError, this, user, w1))"

definition removeStory ::
  "network \<Rightarrow> StoryList \<Rightarrow> User \<Rightarrow> string \<Rightarrow> world
     \<Rightarrow> (error + unit) \<times> StoryList \<times> User \<times> world" where
  "removeStory net this user sid w =
     (let token = loginToken user;
          (response, w1) =
            axios net \<lparr>req_method = DELETE, req_url = BASE_URL @ ''/stories/'' @ sid,
                       req_data = TokenBody (loginToken user)\<rparr> w
      in case response of
           Inl e \<Rightarrow> (Inl e, this, user, w1)
         | Inr _ \<Rightarrow>
             (let (a1, w2) = array_filter (\<lambda>story. storyId story \<noteq> sid) (stories this) w1;
                  this1 = this\<lparr>stories := a1\<rparr>;
                  (a2, w3) = array_filter (\<lambda>s. storyId s \<noteq> sid) (ownStories user) w2;
                  user1 = user\<lparr>ownStories := a2\<rparr>;
                  (a3, w4) = array_filter (\<lambda>s. storyId s \<noteq> sid) (favorites user1) w3;
                  user2 = user1\<lparr>favorites := a3\<rparr>
              in (Inr (), this1, user2, w4)))"

section \<open>User\<close>

definition create ::
  "network \<Rightarrow> string \<Rightarrow> string \<Rightarrow> string \<Rightarrow> world \<Rightarrow> (error + User) \<times> world" where
  "create net uname password fullname w =
     (let (response, w1) =
            axios net \<lparr>req_method = POST, req_url = BASE_URL @ ''/signup'',
                       req_data = SignupBody uname password fullname\<rparr> w
      in case response of
           Inl e \<Rightarrow> (Inl e, w1)
         | Inr (UserData r tok) \<Rightarrow>
             (let (newUser, w2) = new_User r w1;
                  newUser1 = newUser\<lparr>loginToken := tok\<rparr>
              in (Inr newUser1, w2))
         | Inr _ \<Rightarrow> (Inl TypeError, w1))"

definition login ::
  "network \<Rightarrow> string \<Rightarrow> string \<Rightarrow> world \<Rightarrow> (error + User) \<times> world" where
  "login net uname password w =
     (let (response, w1) =
            axios net \<lparr>req_method = POST, req_url = BASE_URL @ ''/login'',
                       req_data = LoginBody uname password\<rparr> w
      in case response of
           Inl e \<Rightarrow> (Inl e, w1)
         | Inr (UserData r tok) \<Rightarrow>
             (let (existingUser, w2) = new_User r w1;
                  (fa, w3) = array_map new_Story (ur_favorites r) w2;
                  existingUser1 = existingUser\<lparr>favorites := fa\<rparr>;
                  (oa, w4) = array_map new_Story (ur_stories r) w3;
                  existingUser2 = existingUser1\<lparr>ownStories := oa\<rparr>;
                  existingUser3 = existingUser2\<lparr>loginToken := tok\<rparr>
              in (Inr existingUser3, w4))
         | Inr _ \<Rightarrow> (Inl TypeError, w1))"

definition getLoggedInUser ::
  "network \<Rightarrow> jsval \<Rightarrow> jsval \<Rightarrow> world \<Rightarrow> (error + User option) \<times> world" where
  "getLoggedInUser net token uname w =
     (if \<not> truthy token \<or> \<not> truthy uname then (Inr None, w)
      else
        let (response, w1) =
              axios net \<lparr>req_method = GET,
                         req_url = BASE_URL @ ''/users/'' @ to_string uname,
                         req_data = TokenParams token\<rparr> w
        in case response of
             Inl e \<Rightarrow> (Inl e, w1)
           | Inr (UserData r tok) \<Rightarrow>
               (let (existingUser, w2) = new_User r w1;
                    existingUser1 = existingUser\<lparr>loginToken := token\<rparr>;
                    (fa, w3) = array_map new_Story (ur_favorites r) w2;
                    existingUser2 = existingUser1\<lparr>favorites := fa\<rparr>;
                    (oa, w4) = array_map new_Story (ur_stories r) w3;
                    existingUser3 = existingUser2\<lparr>ownStories := oa\<rparr>
                in (Inr (Some existingUser3), w4))
           | Inr _ \<Rightarrow> (Inl TypeError, w1))"

text \<open>\<open>addOrRemoveFavorite\<close> is the source's \<open>_addOrRemoveFavorite\<close>.\<close>

definition addOrRemoveFavorite ::
  "network \<Rightarrow> User \<Rightarrow> string \<Rightarrow> Story \<Rightarrow> world \<Rightarrow> (error + unit) \<times> world" where
  "addOrRemoveFavorite net this newState story w =
     (let meth = (if newState = ''add'' then POST else DELETE);
          token = loginToken this;
          (response, w1) =
            axios net \<lparr>req_method = meth,
                       req_url = BASE_URL @ ''/users/'' @ username this @ ''/favorites/''
                             @ storyId story,
                       req_data = TokenBody token\<rparr> w
      in case response of
           Inl e \<Rightarrow> (Inl e, w1)
         | Inr _ \<Rightarrow> (Inr (), w1))"

definition addFavorite ::
  "network \<Rightarrow> User \<Rightarrow> Story \<Rightarrow> world \<Rightarrow> (error + unit) \<times> User \<times> world" where
  "addFavorite net this story w =
     (let w1 = push (favorites this) story w;
          (r, w2) = addOrRemoveFavorite net this ''add'' story w1
      in (r, this, w2))"

definition removeFavorite ::
  "network \<Rightarrow> User \<Rightarrow> Story \<Rightarrow> world \<Rightarrow> (error + unit) \<times> User \<times> world" where
  "removeFavorite net this story w =
     (let (a, w1) = array_filter (\<lambda>s. storyId s \<noteq> storyId story) (favorites this) w;
          this1 = this\<lparr>favorites := a\<rparr>;
          (r, w2) = addOrRemoveFavorite net this1 ''remove'' story w1
      in (r, this1, w2))"

text \<open>\<open>isFavorite\<close> only reads; it hands back the world it was given.\<close>

definition isFavorite :: "User \<Rightarrow> Story \<Rightarrow> world \<Rightarrow> bool \<times> world" where
  "isFavorite this story w =
     (array_some (\<lambda>s. storyId s = storyId story) (favorites this) w, w)"

section \<open>The no-duplicates invariant\<close>

definition no_duplicates :: "world \<Rightarrow> addr \<Rightarrow> bool" where
  "no_duplicates w a = distinct (map storyId (heap w a))"

definition invariant :: "StoryList \<Rightarrow> User \<Rightarrow> world \<Rightarrow> bool" where
  "invariant sl u w =
     (no_duplicates w (favorites u) \<and> no_duplicates w (ownStories u)
      \<and> no_duplicates w (stories sl))"

section \<open>Sample objects\<close>

text \<open>
  A user \<open>bob\<close> with one favorite and two stories of his own, a feed of two stories,
  and three networks: one that accepts every request with an empty body, one that
  rejects every request, and two that answer with a story or a user record.
\<close>

definition story1 :: Story where
  "story1 = \<lparr>author = ''A1'', title = ''T1'', url = ''U1'', username = ''bob'',
     storyId = ''sid1'', createdAt = ''c1'', updatedAt = ''u1''\<rparr>"

definition story2 :: Story where
  "story2 = \<lparr>author = ''A2'', title = ''T2'', url = ''U2'', username = ''bob'',
     storyId = ''sid2'', createdAt = ''c2'', updatedAt = ''u2''\<rparr>"

definition record3 :: storyRecord where
  "record3 = \<lparr>sr_author = ''A'', sr_title = ''T'', sr_url = ''U'', sr_username = ''bob'',
     sr_storyId = ''sid3'', sr_createdAt = ''c3'', sr_updatedAt = ''u3''\<rparr>"

definition record4 :: storyRecord where
  "record4 = \<lparr>sr_author = ''A4'', sr_title = ''T4'', sr_url = ''U4'', sr_username = ''eve'',
     sr_storyId = ''sid4'', sr_createdAt = ''c4'', sr_updatedAt = ''u4''\<rparr>"

definition bob_record :: userRecord where
  "bob_record = \<lparr>ur_username = ''bob'', ur_name = ''Bob'', ur_createdAt = ''c'',
     ur_updatedAt = ''u'', ur_favorites = [record4], ur_stories = [record3, record4]\<rparr>"

definition bob :: User where
  "bob = \<lparr>username = ''bob'', name = ''Bob'', createdAt = ''c'', updatedAt = ''u'',
     loginToken = Str ''tok'', favorites = 0, ownStories = 1\<rparr>"

definition feed :: StoryList where
  "feed = \<lparr>stories = 2\<rparr>"

definition world0 :: world where
  "world0 = \<lparr>heap = (\<lambda>_. [])(0 := [story1], 1 := [story2, story1], 2 := [story1, story2]),
     nxt = 3, sent = []\<rparr>"

definition accept :: network where
  "accept req = Inr OtherData"

definition reject :: network where
  "reject req = Inl NetworkError"

definition serve_story :: network where
  "serve_story req = Inr (StoryData record3)"

definition serve_user :: network where
  "serve_user req = Inr (UserData bob_record (Str ''tok2''))"

section \<open>Auxiliary facts\<close>

lemma distinct_ids_filter:
  "distinct (map storyId xs) \<Longrightarrow> distinct (map storyId (filter p xs))"
  by (simp add: distinct_map_filter)

text \<open>The arrays the layer itself creates are new objects: a fresh user's two lists are
  different arrays, and neither they nor a fetched feed share an array that existed
  before.\<close>

lemma new_User_separate:
  "new_User r w = (u, w') \<Longrightarrow>
     favorites u \<noteq> ownStories u \<and> \<not> allocated w (favorites u) \<and> \<not> allocated w (ownStories u)
     \<and> allocated w' (favorites u) \<and> allocated w' (ownStories u)"
  by (auto simp add: new_User_def alloc_def allocated_def Let_def)

lemma getStories_fresh:
  "getStories net w = (Inr sl, w') \<Longrightarrow> \<not> allocated w (stories sl) \<and> allocated w' (stories sl)"
  by (auto simp add: getStories_def axios_def array_map_def alloc_def allocated_def Let_def
      new_StoryList_def split: sum.splits response.splits)

text \<open>
  Well-formedness is established by the factories and kept by the mutators: a fetched
  feed is separated from every user that exists, a user that \<open>create\<close>, \<open>login\<close> or
  \<open>getLoggedInUser\<close> returns is separated from every list that exists, and
  \<open>addStory\<close>, \<open>removeStory\<close>, \<open>addFavorite\<close> and \<open>removeFavorite\<close> lead from
  separated objects to separated objects, whatever the outcome of the request.
\<close>

lemma getStories_separated:
  "getStories net w = (Inr sl, w') \<Longrightarrow> allocated w (favorites u)
     \<Longrightarrow> allocated w (ownStories u) \<Longrightarrow> favorites u \<noteq> ownStories u
     \<Longrightarrow> separated sl u w'"
  by (auto simp add: getStories_def axios_def array_map_def alloc_def allocated_def Let_def
      new_StoryList_def separated_def split: sum.splits response.splits)

lemma create_separated:
  "create net uname password fullname w = (Inr u, w') \<Longrightarrow> allocated w (stories sl)
     \<Longrightarrow> separated sl u w'"
  by (auto simp add: create_def axios_def new_User_def alloc_def allocated_def Let_def
      separated_def split: sum.splits response.splits)

lemma login_separated:
  "login net uname password w = (Inr u, w') \<Longrightarrow> allocated w (stories sl)
     \<Longrightarrow> separated sl u w'"
  by (auto simp add: login_def axios_def new_User_def array_map_def alloc_def allocated_def
      Let_def separated_def split: sum.splits response.splits)

lemma getLoggedInUser_separated:
  "getLoggedInUser net token uname w = (Inr (Some u), w') \<Longrightarrow> allocated w (stories sl)
     \<Longrightarrow> separated sl u w'"
  by (auto simp add: getLoggedInUser_def axios_def new_User_def array_map_def alloc_def
      allocated_def Let_def separated_def split: if_splits sum.splits response.splits)

lemma addStory_separated:
  "separated sl u w \<Longrightarrow> addStory net sl u newStory w = (r, sl', u', w')
     \<Longrightarrow> separated sl' u' w'"
  by (auto simp add: addStory_def axios_def unshift_def allocated_def Let_def separated_def
      split: sum.splits prod.splits response.splits)

lemma removeStory_separated:
  "separated sl u w \<Longrightarrow> removeStory net sl u sid w = (r, sl', u', w')
     \<Longrightarrow> separated sl' u' w'"
  by (auto simp add: removeStory_def axios_def array_filter_def alloc_def allocated_def
      Let_def separated_def split: sum.splits prod.splits)

lemma addFavorite_separated:
  "separated sl u w \<Longrightarrow> addFavorite net u story w = (r, u', w')
     \<Longrightarrow> separated sl u' w'"
  by (auto simp add: addFavorite_def addOrRemoveFavorite_def axios_def push_def
      allocated_def Let_def separated_def split: sum.splits prod.splits)

lemma removeFavorite_separated:
  "separated sl u w \<Longrightarrow> removeFavorite net u story w = (r, u', w')
     \<Longrightarrow> separated sl u' w'"
  by (auto simp add: removeFavorite_def addOrRemoveFavorite_def axios_def array_filter_def
      alloc_def allocated_def Let_def separated_def split: sum.splits prod.splits)

section \<open>removeStory\<close>

text \<open>
  Claim C1. When \<open>removeStory(user, storyId)\<close> completes successfully, the list's
  stories, the user's ownStories and the user's favorites are exactly their former
  contents without the entries of that storyId, in the former order; so no entry of the
  three lists has that storyId, whichever of them held it. The three arrays are arrays
  of the store (their addresses are allocated).
\<close>

theorem removeStory_removes:
  assumes "allocated w (stories this)" and "allocated w (ownStories user)"
    and "allocated w (favorites user)"
    and "removeStory net this user sid w = (Inr (), this', user', w')"
  shows "heap w' (stories this') = filter (\<lambda>s. storyId s \<noteq> sid) (heap w (stories this))
       \<and> heap w' (ownStories user')
           = filter (\<lambda>s. storyId s \<noteq> sid) (heap w (ownStories user))
       \<and> heap w' (favorites user')
           = filter (\<lambda>s. storyId s \<noteq> sid) (heap w (favorites user))
       \<and> sid \<notin> storyId ` set (heap w' (stories this'))
       \<and> sid \<notin> storyId ` set (heap w' (ownStories user'))
       \<and> sid \<notin> storyId ` set (heap w' (favorites user'))"
  using assms
  by (auto simp add: removeStory_def axios_def array_filter_def alloc_def allocated_def Let_def
      split: sum.splits prod.splits)

text \<open>
  Claim C1, at a concrete input: \<open>sid1\<close> is in all three lists of the sample world,
  the server accepts the deletion, and afterwards it is in none of them while \<open>sid2\<close>
  is still where it was.
\<close>

theorem removeStory_removes_witness:
  "allocated world0 (stories feed) \<and> allocated world0 (ownStories bob)
   \<and> allocated world0 (favorites bob)
   \<and> fst (removeStory accept feed bob ''sid1'' world0) = Inr ()
   \<and> heap (snd (snd (snd (removeStory accept feed bob ''sid1'' world0))))
        (stories (fst (snd (removeStory accept feed bob ''sid1'' world0)))) = [story2]
   \<and> heap (snd (snd (snd (removeStory accept feed bob ''sid1'' world0))))
        (ownStories (fst (snd (snd (removeStory accept feed bob ''sid1'' world0))))) = [story2]
   \<and> heap (snd (snd (snd (removeStory accept feed bob ''sid1'' world0))))
        (favorites (fst (snd (snd (removeStory accept feed bob ''sid1'' world0))))) = []"
proof -
  let ?R = "removeStory accept feed bob ''sid1'' world0"
  have a1: "allocated world0 (stories feed)"
    and a2: "allocated world0 (ownStories bob)"
    and a3: "allocated world0 (favorites bob)"
    by (simp_all add: allocated_def world0_def feed_def bob_def)
  have e: "fst ?R = Inr ()"
    by (simp add: removeStory_def axios_def accept_def Let_def split: prod.splits)
  then have r: "?R = (Inr (), fst (snd ?R), fst (snd (snd ?R)), snd (snd (snd ?R)))"
    by (simp add: prod_eq_iff)
  have h1: "filter (\<lambda>s. storyId s \<noteq> ''sid1'') (heap world0 (stories feed)) = [story2]"
    and h2: "filter (\<lambda>s. storyId s \<noteq> ''sid1'') (heap world0 (ownStories bob)) = [story2]"
    and h3: "filter (\<lambda>s. storyId s \<noteq> ''sid1'') (heap world0 (favorites bob)) = []"
    by (simp_all add: world0_def feed_def bob_def story1_def story2_def)
  from removeStory_removes [OF a1 a2 a3 r] a1 a2 a3 e h1 h2 h3 show ?thesis
    by simp
qed

section \<open>addStory\<close>

text \<open>
  Claim C2. When \<open>addStory(user, {title, author, url})\<close> completes successfully on a
  well-formed list and user, the returned Story is the one built from the server's
  response, it is the first element of the list's stories and of the user's ownStories,
  the former elements of both follow it in their order, and the stories are exactly one
  more than before.
\<close>

theorem addStory_prepends:
  assumes "separated this user w"
    and "addStory net this user (t, a, u) w = (Inr story, this', user', w')"
  shows "(\<exists>r. net \<lparr>req_method = POST, req_url = BASE_URL @ ''/stories'',
                     req_data = StoryBody (loginToken user) t a u\<rparr> = Inr (StoryData r)
              \<and> story = new_Story r)
       \<and> hd (heap w' (stories this')) = story
       \<and> hd (heap w' (ownStories user')) = story
       \<and> heap w' (stories this') = story # heap w (stories this)
       \<and> heap w' (ownStories user') = story # heap w (ownStories user)
       \<and> length (heap w' (stories this')) = length (heap w (stories this)) + 1"
  using assms
  by (auto simp add: addStory_def axios_def unshift_def separated_def Let_def
      split: sum.splits prod.splits response.splits)

text \<open>
  Claim C2, at a concrete input: the feed and \<open>bob\<close> are well-formed in the sample
  world, the server answers with the record of story \<open>sid3\<close>, and that story is put
  in front of the feed and of \<open>bob\<close>'s ownStories.
\<close>

theorem addStory_prepends_witness:
  "separated feed bob world0
   \<and> fst (addStory serve_story feed bob (''T'', ''A'', ''U'') world0) = Inr (new_Story record3)
   \<and> heap (snd (snd (snd (addStory serve_story feed bob (''T'', ''A'', ''U'') world0))))
        (stories (fst (snd (addStory serve_story feed bob (''T'', ''A'', ''U'') world0))))
       = [new_Story record3, story1, story2]
   \<and> heap (snd (snd (snd (addStory serve_story feed bob (''T'', ''A'', ''U'') world0))))
        (ownStories (fst (snd (snd (addStory serve_story feed bob (''T'', ''A'', ''U'') world0)))))
       = [new_Story record3, story2, story1]"
proof -
  let ?R = "addStory serve_story feed bob (''T'', ''A'', ''U'') world0"
  have d: "separated feed bob world0"
    by (simp add: separated_def allocated_def feed_def bob_def world0_def)
  have e: "fst ?R = Inr (new_Story record3)"
    by (simp add: addStory_def axios_def serve_story_def Let_def)
  then have r: "?R = (Inr (new_Story record3), fst (snd ?R), fst (snd (snd ?R)), snd (snd (snd ?R)))"
    by (simp add: prod_eq_iff)
  have h1: "heap world0 (stories feed) = [story1, story2]"
    and h2: "heap world0 (ownStories bob) = [story2, story1]"
    by (simp_all add: world0_def feed_def bob_def)
  from addStory_prepends [OF d r] d e h1 h2 show ?thesis
    by simp
qed

section \<open>The invariant under the four mutators\<close>

text \<open>
  Claim C3, as the code has it. Starting from a state where favorites, ownStories and
  the list's stories have no two entries of the same storyId: \<open>removeFavorite\<close> and
  \<open>removeStory\<close> keep it so, whatever the outcome of the request; \<open>addFavorite\<close>
  keeps it so when the story's storyId is not yet among the favorites; a successful
  \<open>addStory\<close> keeps it so when the list's stories array is not the user's ownStories
  array and the new story's storyId is in neither; a failed \<open>addStory\<close> keeps it so.
  None of the four looks for an entry of the same storyId before it inserts.
\<close>

theorem invariant_preserved:
  assumes "invariant sl u w"
  shows "(removeFavorite net u story w = (r1, u1, w1) \<longrightarrow> invariant sl u1 w1)
       \<and> (removeStory net sl u sid w = (r2, sl2, u2, w2) \<longrightarrow> invariant sl2 u2 w2)
       \<and> (addFavorite net u story w = (r3, u3, w3)
            \<and> storyId story \<notin> storyId ` set (heap w (favorites u))
           \<longrightarrow> invariant sl u3 w3)
       \<and> (addStory net sl u newStory w = (Inr new, sl4, u4, w4)
            \<and> stories sl \<noteq> ownStories u
            \<and> storyId new \<notin> storyId ` set (heap w (stories sl))
            \<and> storyId new \<notin> storyId ` set (heap w (ownStories u))
           \<longrightarrow> invariant sl4 u4 w4)
       \<and> (addStory net sl u newStory w = (Inl e, sl5, u5, w5) \<longrightarrow> invariant sl5 u5 w5)"
proof (intro conjI impI)
  assume "removeFavorite net u story w = (r1, u1, w1)"
  with assms show "invariant sl u1 w1"
    by (auto simp add: removeFavorite_def addOrRemoveFavorite_def axios_def array_filter_def
        alloc_def Let_def invariant_def no_duplicates_def distinct_ids_filter
        split: sum.splits prod.splits)
next
  assume "removeStory net sl u sid w = (r2, sl2, u2, w2)"
  with assms show "invariant sl2 u2 w2"
    by (auto simp add: removeStory_def axios_def array_filter_def
        alloc_def Let_def invariant_def no_duplicates_def distinct_ids_filter
        split: sum.splits prod.splits)
next
  assume "addFavorite net u story w = (r3, u3, w3)
            \<and> storyId story \<notin> storyId ` set (heap w (favorites u))"
  with assms show "invariant sl u3 w3"
    by (auto simp add: addFavorite_def addOrRemoveFavorite_def axios_def push_def
        Let_def invariant_def no_duplicates_def
        split: sum.splits prod.splits)
next
  assume "addStory net sl u newStory w = (Inr new, sl4, u4, w4)
            \<and> stories sl \<noteq> ownStories u
            \<and> storyId new \<notin> storyId ` set (heap w (stories sl))
            \<and> storyId new \<notin> storyId ` set (heap w (ownStories u))"
  with assms show "invariant sl4 u4 w4"
    by (auto simp add: addStory_def axios_def unshift_def
        Let_def invariant_def no_duplicates_def
        split: sum.splits prod.splits response.splits)
next
  assume "addStory net sl u newStory w = (Inl e, sl5, u5, w5)"
  with assms show "invariant sl5 u5 w5"
    by (auto simp add: addStory_def axios_def unshift_def
        Let_def invariant_def no_duplicates_def
        split: sum.splits prod.splits response.splits)
qed

text \<open>
  Claim C3, at a concrete input: the sample world satisfies the invariant; un-favoriting
  \<open>sid2\<close>, removing \<open>sid1\<close>, favoriting \<open>sid2\<close> (not a favorite yet), adding the new
  story \<open>sid3\<close> to the feed, and an \<open>addStory\<close> that the network rejects all end in
  states that satisfy it.
\<close>

theorem invariant_preserved_witness:
  "invariant feed bob world0
   \<and> invariant feed (fst (snd (removeFavorite accept bob story2 world0)))
        (snd (snd (removeFavorite accept bob story2 world0)))
   \<and> invariant (fst (snd (removeStory accept feed bob ''sid1'' world0)))
        (fst (snd (snd (removeStory accept feed bob ''sid1'' world0))))
        (snd (snd (snd (removeStory accept feed bob ''sid1'' world0))))
   \<and> storyId story2 \<notin> storyId ` set (heap world0 (favorites bob))
   \<and> invariant feed (fst (snd (addFavorite accept bob story2 world0)))
        (snd (snd (addFavorite accept bob story2 world0)))
   \<and> fst (addStory serve_story feed bob (''T'', ''A'', ''U'') world0) = Inr (new_Story record3)
   \<and> stories feed \<noteq> ownStories bob
   \<and> storyId (new_Story record3) \<notin> storyId ` set (heap world0 (stories feed))
   \<and> storyId (new_Story record3) \<notin> storyId ` set (heap world0 (ownStories bob))
   \<and> invariant (fst (snd (addStory serve_story feed bob (''T'', ''A'', ''U'') world0)))
        (fst (snd (snd (addStory serve_story feed bob (''T'', ''A'', ''U'') world0))))
        (snd (snd (snd (addStory serve_story feed bob (''T'', ''A'', ''U'') world0))))
   \<and> fst (addStory reject feed bob (''T'', ''A'', ''U'') world0) = Inl NetworkError
   \<and> invariant (fst (snd (addStory reject feed bob (''T'', ''A'', ''U'') world0)))
        (fst (snd (snd (addStory reject feed bob (''T'', ''A'', ''U'') world0))))
        (snd (snd (snd (addStory reject feed bob (''T'', ''A'', ''U'') world0))))"
proof -
  let ?RF = "removeFavorite accept bob story2 world0"
  let ?RS = "removeStory accept feed bob ''sid1'' world0"
  let ?AF = "addFavorite accept bob story2 world0"
  let ?AS = "addStory serve_story feed bob (''T'', ''A'', ''U'') world0"
  let ?AR = "addStory reject feed bob (''T'', ''A'', ''U'') world0"
  have i: "invariant feed bob world0"
    by (simp add: invariant_def no_duplicates_def feed_def bob_def world0_def
        story1_def story2_def)
  have f: "storyId story2 \<notin> storyId ` set (heap world0 (favorites bob))"
    by (simp add: bob_def world0_def story1_def story2_def)
  have d: "stories feed \<noteq> ownStories bob"
    by (simp add: feed_def bob_def)
  have n1: "storyId (new_Story record3) \<notin> storyId ` set (heap world0 (stories feed))"
    and n2: "storyId (new_Story record3) \<notin> storyId ` set (heap world0 (ownStories bob))"
    by (simp_all add: feed_def bob_def world0_def story1_def story2_def new_Story_def
        record3_def)
  have es: "fst ?AS = Inr (new_Story record3)"
    by (simp add: addStory_def axios_def serve_story_def Let_def)
  have er: "fst ?AR = Inl NetworkError"
    by (simp add: addStory_def axios_def reject_def Let_def)
  have rf: "?RF = (fst ?RF, fst (snd ?RF), snd (snd ?RF))"
    and rs: "?RS = (fst ?RS, fst (snd ?RS), fst (snd (snd ?RS)), snd (snd (snd ?RS)))"
    and af: "?AF = (fst ?AF, fst (snd ?AF), snd (snd ?AF))"
    by simp_all
  from es have as: "?AS = (Inr (new_Story record3), fst (snd ?AS), fst (snd (snd ?AS)),
      snd (snd (snd ?AS)))"
    by (simp add: prod_eq_iff)
  from er have ar: "?AR = (Inl NetworkError, fst (snd ?AR), fst (snd (snd ?AR)),
      snd (snd (snd ?AR)))"
    by (simp add: prod_eq_iff)
  note t = invariant_preserved [OF i, of accept story2 "fst ?RF" "fst (snd ?RF)" "snd (snd ?RF)"
      "''sid1''" "fst ?RS" "fst (snd ?RS)" "fst (snd (snd ?RS))" "snd (snd (snd ?RS))"
      "fst ?AF" "fst (snd ?AF)" "snd (snd ?AF)"]
  note t2 = invariant_preserved [OF i, of serve_story story2 _ _ _ "''sid1''" _ _ _ _ _ _ _
      "(''T'', ''A'', ''U'')" "new_Story record3" "fst (snd ?AS)" "fst (snd (snd ?AS))"
      "snd (snd (snd ?AS))"]
  note t3 = invariant_preserved [OF i, of reject story2 _ _ _ "''sid1''" _ _ _ _ _ _ _
      "(''T'', ''A'', ''U'')" _ _ _ _ NetworkError "fst (snd ?AR)" "fst (snd (snd ?AR))"
      "snd (snd (snd ?AR))"]
  have c1: "invariant feed (fst (snd ?RF)) (snd (snd ?RF))"
    using t rf by blast
  have c2: "invariant (fst (snd ?RS)) (fst (snd (snd ?RS))) (snd (snd (snd ?RS)))"
    using t rs by blast
  have c3: "invariant feed (fst (snd ?AF)) (snd (snd ?AF))"
    using t af f by blast
  have c4: "invariant (fst (snd ?AS)) (fst (snd (snd ?AS))) (snd (snd (snd ?AS)))"
    using t2 as d n1 n2 by blast
  have c5: "invariant (fst (snd ?AR)) (fst (snd (snd ?AR))) (snd (snd (snd ?AR)))"
    using t3 ar by blast
  from i c1 c2 f c3 es d n1 n2 c4 er c5 show ?thesis
    by blast
qed

text \<open>
  Claim C3 as stated fails at \<open>addFavorite\<close>: it pushes without looking, so favoriting
  a story that is a favorite already leaves two entries of its storyId.
\<close>

theorem addFavorite_duplicate_counterexample:
  "invariant feed bob world0
   \<and> fst (addFavorite accept bob story1 world0) = Inr ()
   \<and> heap (snd (snd (addFavorite accept bob story1 world0)))
        (favorites (fst (snd (addFavorite accept bob story1 world0)))) = [story1, story1]
   \<and> \<not> invariant feed (fst (snd (addFavorite accept bob story1 world0)))
        (snd (snd (addFavorite accept bob story1 world0)))"
  by (simp add: invariant_def no_duplicates_def addFavorite_def addOrRemoveFavorite_def
      axios_def push_def accept_def feed_def bob_def world0_def story1_def story2_def Let_def)

section \<open>Failed requests\<close>

text \<open>
  Claim C4, as the code has it. \<open>addFavorite\<close> and \<open>removeFavorite\<close> change the
  favorites before they send the request, so when the request fails the change stays:
  the story is at the end of the favorites, respectively the entries of its storyId are
  gone. \<open>addStory\<close> changes the lists only after the request has succeeded, so when it
  fails no array of the store has changed, and neither has the list or the user.
\<close>

theorem failed_call_local_state:
  "(addFavorite net this story w = (Inl e1, this1, w1)
      \<longrightarrow> heap w1 (favorites this1) = heap w (favorites this) @ [story])
 \<and> (removeFavorite net this story w = (Inl e2, this2, w2)
      \<longrightarrow> heap w2 (favorites this2)
          = filter (\<lambda>s. storyId s \<noteq> storyId story) (heap w (favorites this)))
 \<and> (addStory net sl this newStory w = (Inl e3, sl3, this3, w3)
      \<longrightarrow> heap w3 = heap w \<and> sl3 = sl \<and> this3 = this)"
  by (auto simp add: addFavorite_def removeFavorite_def addOrRemoveFavorite_def addStory_def
      axios_def push_def unshift_def array_filter_def alloc_def Let_def
      split: sum.splits prod.splits response.splits)

text \<open>
  Claim C4, at a concrete input: the network rejects every request; \<open>sid2\<close> is a
  favorite after the failed \<open>addFavorite\<close>, \<open>sid1\<close> is none after the failed
  \<open>removeFavorite\<close>, and the failed \<open>addStory\<close> leaves the store as it was.
\<close>

theorem failed_call_local_state_witness:
  "fst (addFavorite reject bob story2 world0) = Inl NetworkError
   \<and> heap (snd (snd (addFavorite reject bob story2 world0)))
        (favorites (fst (snd (addFavorite reject bob story2 world0)))) = [story1, story2]
   \<and> fst (removeFavorite reject bob story1 world0) = Inl NetworkError
   \<and> heap (snd (snd (removeFavorite reject bob story1 world0)))
        (favorites (fst (snd (removeFavorite reject bob story1 world0)))) = []
   \<and> fst (addStory reject feed bob (''T'', ''A'', ''U'') world0) = Inl NetworkError
   \<and> heap (snd (snd (snd (addStory reject feed bob (''T'', ''A'', ''U'') world0))))
       = heap world0"
proof -
  let ?AF = "addFavorite reject bob story2 world0"
  let ?RF = "removeFavorite reject bob story1 world0"
  let ?AS = "addStory reject feed bob (''T'', ''A'', ''U'') world0"
  have e1: "fst ?AF = Inl NetworkError"
    by (simp add: addFavorite_def addOrRemoveFavorite_def axios_def reject_def Let_def)
  have e2: "fst ?RF = Inl NetworkError"
    by (simp add: removeFavorite_def addOrRemoveFavorite_def axios_def reject_def
        array_filter_def alloc_def Let_def)
  have e3: "fst ?AS = Inl NetworkError"
    by (simp add: addStory_def axios_def reject_def Let_def)
  from e1 have r1: "?AF = (Inl NetworkError, fst (snd ?AF), snd (snd ?AF))"
    by (simp add: prod_eq_iff)
  from e2 have r2: "?RF = (Inl NetworkError, fst (snd ?RF), snd (snd ?RF))"
    by (simp add: prod_eq_iff)
  from e3 have r3: "?AS = (Inl NetworkError, fst (snd ?AS), fst (snd (snd ?AS)),
      snd (snd (snd ?AS)))"
    by (simp add: prod_eq_iff)
  have h1: "heap world0 (favorites bob) @ [story2] = [story1, story2]"
    by (simp add: world0_def bob_def)
  note t1 = failed_call_local_state [of reject bob story2 world0 NetworkError "fst (snd ?AF)"
      "snd (snd ?AF)"]
  note t2 = failed_call_local_state [of reject bob story1 world0 _ _ _ NetworkError
      "fst (snd ?RF)" "snd (snd ?RF)" feed "(''T'', ''A'', ''U'')" NetworkError
      "fst (snd ?AS)" "fst (snd (snd ?AS))" "snd (snd (snd ?AS))"]
  have c1: "heap (snd (snd ?AF)) (favorites (fst (snd ?AF))) = [story1, story2]"
    using t1 r1 h1 by simp
  have c2: "heap (snd (snd ?RF)) (favorites (fst (snd ?RF)))
      = filter (\<lambda>s. storyId s \<noteq> storyId story1) (heap world0 (favorites bob))"
    using t2 r2 by blast
  have h2: "filter (\<lambda>s. storyId s \<noteq> storyId story1) (heap world0 (favorites bob)) = []"
    by (simp add: world0_def bob_def)
  have c3: "heap (snd (snd (snd ?AS))) = heap world0"
    using t2 r3 by blast
  from e1 c1 e2 c2 h2 e3 c3 show ?thesis
    by simp
qed

text \<open>
  Claim C4 as stated fails at \<open>addStory\<close>: when the network rejects the request the
  call ends with that error and the feed and the user's ownStories hold what they held
  before; there is no local change to be left in place.
\<close>

theorem addStory_failure_counterexample:
  "fst (addStory reject feed bob (''T'', ''A'', ''U'') world0) = Inl NetworkError
   \<and> heap (snd (snd (snd (addStory reject feed bob (''T'', ''A'', ''U'') world0))))
        (stories feed) = heap world0 (stories feed)
   \<and> heap (snd (snd (snd (addStory reject feed bob (''T'', ''A'', ''U'') world0))))
        (ownStories bob) = heap world0 (ownStories bob)
   \<and> heap (snd (snd (snd (addStory reject feed bob (''T'', ''A'', ''U'') world0))))
        (favorites bob) = heap world0 (favorites bob)"
  by (simp add: addStory_def axios_def reject_def Let_def)

section \<open>getLoggedInUser\<close>

text \<open>
  Claim C5, as the code has it. If the token or the username is absent (\<open>undefined\<close>
  or \<open>null\<close>) or the empty string, \<open>getLoggedInUser\<close> returns null and the world is
  as before: no request is sent. Otherwise exactly one request is sent, the GET for that
  user with the token as query parameter, and when the server answers it with a user
  record the returned User carries the given token, and its favorites and ownStories are
  the Stories built from the record's embedded favorites and stories.
\<close>

theorem getLoggedInUser_guard:
  "(token \<in> {Undefined, Null, Str []} \<or> uname \<in> {Undefined, Null, Str []}
      \<longrightarrow> getLoggedInUser net token uname w = (Inr None, w))
 \<and> (token \<notin> {Undefined, Null, Str []} \<and> uname \<notin> {Undefined, Null, Str []}
      \<longrightarrow> sent (snd (getLoggedInUser net token uname w))
            = sent w @ [\<lparr>req_method = GET, req_url = BASE_URL @ ''/users/'' @ to_string uname,
                          req_data = TokenParams token\<rparr>]
        \<and> (net \<lparr>req_method = GET, req_url = BASE_URL @ ''/users/'' @ to_string uname,
                  req_data = TokenParams token\<rparr> = Inr (UserData r tok)
            \<longrightarrow> (\<exists>u w'. getLoggedInUser net token uname w = (Inr (Some u), w')
                   \<and> loginToken u = token
                   \<and> heap w' (favorites u) = map new_Story (ur_favorites r)
                   \<and> heap w' (ownStories u) = map new_Story (ur_stories r))))"
  by (cases token; cases uname)
     (auto simp add: getLoggedInUser_def truthy_def axios_def new_User_def array_map_def
        alloc_def Let_def split: sum.splits prod.splits response.splits)

text \<open>
  Claim C5, at concrete inputs: without a token nothing is sent and null is returned;
  with token \<open>tok\<close> and username \<open>bob\<close> one request is sent and the user that comes
  back carries \<open>tok\<close>, one favorite and two stories of its own.
\<close>

theorem getLoggedInUser_guard_witness:
  "Undefined \<in> {Undefined, Null, Str []}
   \<and> getLoggedInUser serve_user Undefined (Str ''bob'') world0 = (Inr None, world0)
   \<and> Str ''tok'' \<notin> {Undefined, Null, Str []} \<and> Str ''bob'' \<notin> {Undefined, Null, Str []}
   \<and> serve_user \<lparr>req_method = GET, req_url = BASE_URL @ ''/users/'' @ to_string (Str ''bob''),
                   req_data = TokenParams (Str ''tok'')\<rparr> = Inr (UserData bob_record (Str ''tok2''))
   \<and> sent (snd (getLoggedInUser serve_user (Str ''tok'') (Str ''bob'') world0))
       = [\<lparr>req_method = GET, req_url = BASE_URL @ ''/users/bob'',
            req_data = TokenParams (Str ''tok'')\<rparr>]
   \<and> (\<exists>u w'. getLoggedInUser serve_user (Str ''tok'') (Str ''bob'') world0 = (Inr (Some u), w')
         \<and> loginToken u = Str ''tok''
         \<and> heap w' (favorites u) = [new_Story record4]
         \<and> heap w' (ownStories u) = [new_Story record3, new_Story record4])"
proof -
  have a: "Undefined \<in> {Undefined, Null, Str []}"
    by simp
  have b: "Str ''tok'' \<notin> {Undefined, Null, Str []}" "Str ''bob'' \<notin> {Undefined, Null, Str []}"
    by simp_all
  have s: "serve_user \<lparr>req_method = GET, req_url = BASE_URL @ ''/users/'' @ to_string (Str ''bob''),
      req_data = TokenParams (Str ''tok'')\<rparr> = Inr (UserData bob_record (Str ''tok2''))"
    by (simp add: serve_user_def)
  have h: "sent world0 = []" "to_string (Str ''bob'') = ''bob''"
    "map new_Story (ur_favorites bob_record) = [new_Story record4]"
    "map new_Story (ur_stories bob_record) = [new_Story record3, new_Story record4]"
    by (simp_all add: world0_def to_string_def bob_record_def)
  note t1 = getLoggedInUser_guard [of Undefined "Str ''bob''" serve_user world0]
  note t2 = getLoggedInUser_guard [of "Str ''tok''" "Str ''bob''" serve_user world0 bob_record
      "Str ''tok2''"]
  have c1: "getLoggedInUser serve_user Undefined (Str ''bob'') world0 = (Inr None, world0)"
    using t1 a by blast
  have c2: "sent (snd (getLoggedInUser serve_user (Str ''tok'') (Str ''bob'') world0))
      = [\<lparr>req_method = GET, req_url = BASE_URL @ ''/users/bob'',
           req_data = TokenParams (Str ''tok'')\<rparr>]"
    using t2 b h by simp
  have c3: "\<exists>u w'. getLoggedInUser serve_user (Str ''tok'') (Str ''bob'') world0
         = (Inr (Some u), w')
       \<and> loginToken u = Str ''tok''
       \<and> heap w' (favorites u) = [new_Story record4]
       \<and> heap w' (ownStories u) = [new_Story record3, new_Story record4]"
    using t2 b s h by simp
  from a c1 b s c2 c3 show ?thesis
    by blast
qed

text \<open>
  Claim C5 as stated fails for a token that is present but empty: the token \<open>""\<close>
  is neither \<open>undefined\<close> nor \<open>null\<close>, the username is \<open>bob\<close>, and still null is
  returned and no request is sent, although the server would have answered.
\<close>

theorem getLoggedInUser_empty_token_counterexample:
  "Str [] \<noteq> Undefined \<and> Str [] \<noteq> Null \<and> Str ''bob'' \<noteq> Undefined \<and> Str ''bob'' \<noteq> Null
   \<and> fst (getLoggedInUser serve_user (Str []) (Str ''bob'') world0) = Inr None
   \<and> sent (snd (getLoggedInUser serve_user (Str []) (Str ''bob'') world0)) = sent world0"
  by (simp add: getLoggedInUser_def truthy_def)

text \<open>
  Claim C9. The guard of \<open>getLoggedInUser\<close> tests falsiness: with the empty string as
  token, whatever the username, and with the empty string as username, whatever the
  token, it returns null and leaves the world as it was, so no request is sent.
\<close>

theorem getLoggedInUser_empty_string:
  "getLoggedInUser net (Str []) uname w = (Inr None, w)
 \<and> getLoggedInUser net token (Str []) w = (Inr None, w)"
  by (simp add: getLoggedInUser_def truthy_def)

text \<open>
  Claim C9, at concrete inputs: an empty token with username \<open>bob\<close>, and token
  \<open>tok\<close> with an empty username, against a server that would have answered.
\<close>

theorem getLoggedInUser_empty_string_witness:
  "getLoggedInUser serve_user (Str []) (Str ''bob'') world0 = (Inr None, world0)
   \<and> getLoggedInUser serve_user (Str ''tok'') (Str []) world0 = (Inr None, world0)
   \<and> sent world0 = []"
  using getLoggedInUser_empty_string [of serve_user "Str ''bob''" world0 "Str ''tok''"]
  by (simp add: world0_def)

section \<open>Favorites\<close>

text \<open>
  Claim C6. \<open>isFavorite(story)\<close> is true exactly when the favorites hold a Story of
  equal storyId, and it leaves the world as it was, so a second call in a row gives the
  same answer. After \<open>addFavorite(story)\<close> it is true, and after a following
  \<open>removeFavorite(story)\<close> it is false, whether the two requests succeeded or failed
  (\<open>r1\<close> and \<open>r2\<close> are any outcomes).
\<close>

theorem isFavorite_spec:
  assumes "addFavorite net1 this story w = (r1, this1, w1)"
    and "removeFavorite net2 this1 story w1 = (r2, this2, w2)"
  shows "fst (isFavorite this story w)
           = (\<exists>s \<in> set (heap w (favorites this)). storyId s = storyId story)
       \<and> snd (isFavorite this story w) = w
       \<and> fst (isFavorite this story (snd (isFavorite this story w)))
           = fst (isFavorite this story w)
       \<and> fst (isFavorite this1 story w1)
       \<and> \<not> fst (isFavorite this2 story w2)"
  using assms
  by (auto simp add: isFavorite_def array_some_def list_ex_iff addFavorite_def
      removeFavorite_def addOrRemoveFavorite_def axios_def push_def array_filter_def alloc_def
      Let_def split: sum.splits prod.splits)

text \<open>
  Claim C6, at a concrete input: \<open>sid2\<close> is no favorite of \<open>bob\<close>; the network
  rejects the request of \<open>addFavorite\<close>, and \<open>isFavorite\<close> is true all the same;
  after \<open>removeFavorite\<close> it is false again.
\<close>

theorem isFavorite_spec_witness:
  "fst (addFavorite reject bob story2 world0) = Inl NetworkError
   \<and> \<not> fst (isFavorite bob story2 world0)
   \<and> fst (isFavorite (fst (snd (addFavorite reject bob story2 world0))) story2
        (snd (snd (addFavorite reject bob story2 world0))))
   \<and> \<not> fst (isFavorite
        (fst (snd (removeFavorite accept (fst (snd (addFavorite reject bob story2 world0)))
           story2 (snd (snd (addFavorite reject bob story2 world0))))))
        story2
        (snd (snd (removeFavorite accept (fst (snd (addFavorite reject bob story2 world0)))
           story2 (snd (snd (addFavorite reject bob story2 world0)))))))"
proof -
  let ?AF = "addFavorite reject bob story2 world0"
  let ?RF = "removeFavorite accept (fst (snd ?AF)) story2 (snd (snd ?AF))"
  have e: "fst ?AF = Inl NetworkError"
    by (simp add: addFavorite_def addOrRemoveFavorite_def axios_def reject_def Let_def)
  have a: "?AF = (fst ?AF, fst (snd ?AF), snd (snd ?AF))"
    and r: "?RF = (fst ?RF, fst (snd ?RF), snd (snd ?RF))"
    by simp_all
  have h: "\<not> (\<exists>s \<in> set (heap world0 (favorites bob)). storyId s = storyId story2)"
    by (simp add: world0_def bob_def story1_def story2_def)
  from isFavorite_spec [OF a r] e h show ?thesis
    by simp
qed

section \<open>login and create\<close>

text \<open>
  Claim C7. When the server answers the login request with a user record and a token,
  \<open>login\<close> returns a User whose favorites and ownStories are the Stories built, in
  order, from the record's embedded favorites and stories: as many entries as there are
  records, each with the storyId of its record; the response's token is the loginToken.
\<close>

theorem login_builds_user:
  assumes "net \<lparr>req_method = POST, req_url = BASE_URL @ ''/login'',
                 req_data = LoginBody uname password\<rparr> = Inr (UserData r tok)"
  shows "\<exists>u w'. login net uname password w = (Inr u, w')
       \<and> heap w' (favorites u) = map new_Story (ur_favorites r)
       \<and> heap w' (ownStories u) = map new_Story (ur_stories r)
       \<and> length (heap w' (favorites u)) = length (ur_favorites r)
       \<and> length (heap w' (ownStories u)) = length (ur_stories r)
       \<and> map storyId (heap w' (favorites u)) = map sr_storyId (ur_favorites r)
       \<and> map storyId (heap w' (ownStories u)) = map sr_storyId (ur_stories r)
       \<and> loginToken u = tok"
  using assms
  by (simp add: login_def axios_def new_User_def array_map_def alloc_def Let_def
      new_Story_def comp_def)

text \<open>
  Claim C7, at a concrete input: the server answers with \<open>bob\<close>'s record, one favorite
  and two stories, and the token \<open>tok2\<close>.
\<close>

theorem login_builds_user_witness:
  "serve_user \<lparr>req_method = POST, req_url = BASE_URL @ ''/login'',
                req_data = LoginBody ''bob'' ''secret''\<rparr> = Inr (UserData bob_record (Str ''tok2''))
   \<and> (\<exists>u w'. login serve_user ''bob'' ''secret'' world0 = (Inr u, w')
        \<and> length (heap w' (favorites u)) = 1
        \<and> length (heap w' (ownStories u)) = 2
        \<and> map storyId (heap w' (favorites u)) = [''sid4'']
        \<and> map storyId (heap w' (ownStories u)) = [''sid3'', ''sid4'']
        \<and> loginToken u = Str ''tok2'')"
proof -
  have s: "serve_user \<lparr>req_method = POST, req_url = BASE_URL @ ''/login'',
      req_data = LoginBody ''bob'' ''secret''\<rparr> = Inr (UserData bob_record (Str ''tok2''))"
    by (simp add: serve_user_def)
  have h: "length (ur_favorites bob_record) = 1" "length (ur_stories bob_record) = 2"
    "map sr_storyId (ur_favorites bob_record) = [''sid4'']"
    "map sr_storyId (ur_stories bob_record) = [''sid3'', ''sid4'']"
    by (simp_all add: bob_record_def record3_def record4_def)
  from login_builds_user [of serve_user "''bob''" "''secret''" bob_record "Str ''tok2''" world0, OF s]
  obtain u w' where
    "login serve_user ''bob'' ''secret'' world0 = (Inr u, w')
       \<and> length (heap w' (favorites u)) = length (ur_favorites bob_record)
       \<and> length (heap w' (ownStories u)) = length (ur_stories bob_record)
       \<and> map storyId (heap w' (favorites u)) = map sr_storyId (ur_favorites bob_record)
       \<and> map storyId (heap w' (ownStories u)) = map sr_storyId (ur_stories bob_record)
       \<and> loginToken u = Str ''tok2''"
    by blast
  with h have "login serve_user ''bob'' ''secret'' world0 = (Inr u, w')
        \<and> length (heap w' (favorites u)) = 1
        \<and> length (heap w' (ownStories u)) = 2
        \<and> map storyId (heap w' (favorites u)) = [''sid4'']
        \<and> map storyId (heap w' (ownStories u)) = [''sid3'', ''sid4'']
        \<and> loginToken u = Str ''tok2''"
    by simp
  then have "\<exists>u w'. login serve_user ''bob'' ''secret'' world0 = (Inr u, w')
        \<and> length (heap w' (favorites u)) = 1
        \<and> length (heap w' (ownStories u)) = 2
        \<and> map storyId (heap w' (favorites u)) = [''sid4'']
        \<and> map storyId (heap w' (ownStories u)) = [''sid3'', ''sid4'']
        \<and> loginToken u = Str ''tok2''"
    by (intro exI)
  with s show ?thesis
    by (rule conjI)
qed

text \<open>
  Claim C8. When the server answers the signup request for \<open>(username, password, name)\<close>
  with the record of the account it created, that is a record of that username and name,
  and with a non-empty token, \<open>create\<close> returns a User of that username and name whose
  loginToken is that token, hence non-empty. The User's fields are copied from the
  response, not from the arguments.
\<close>

theorem create_returns_user:
  assumes "net \<lparr>req_method = POST, req_url = BASE_URL @ ''/signup'',
                 req_data = SignupBody uname password fullname\<rparr> = Inr (UserData r (Str t))"
    and "ur_username r = uname" and "ur_name r = fullname" and "t \<noteq> []"
  shows "\<exists>u w'. create net uname password fullname w = (Inr u, w')
       \<and> username u = uname \<and> name u = fullname
       \<and> loginToken u = Str t \<and> loginToken u \<noteq> Str []"
  using assms
  by (simp add: create_def axios_def new_User_def alloc_def Let_def)

text \<open>
  Claim C8, at a concrete input: signing up \<open>bob\<close>, the server answers with \<open>bob\<close>'s
  record and the token \<open>tok2\<close>.
\<close>

theorem create_returns_user_witness:
  "serve_user \<lparr>req_method = POST, req_url = BASE_URL @ ''/signup'',
                req_data = SignupBody ''bob'' ''secret'' ''Bob''\<rparr>
     = Inr (UserData bob_record (Str ''tok2''))
   \<and> ur_username bob_record = ''bob'' \<and> ur_name bob_record = ''Bob'' \<and> ''tok2'' \<noteq> []
   \<and> (\<exists>u w'. create serve_user ''bob'' ''secret'' ''Bob'' world0 = (Inr u, w')
        \<and> username u = ''bob'' \<and> name u = ''Bob''
        \<and> loginToken u = Str ''tok2'' \<and> loginToken u \<noteq> Str [])"
proof -
  have s: "serve_user \<lparr>req_method = POST, req_url = BASE_URL @ ''/signup'',
      req_data = SignupBody ''bob'' ''secret'' ''Bob''\<rparr> = Inr (UserData bob_record (Str ''tok2''))"
    by (simp add: serve_user_def)
  have n: "ur_username bob_record = ''bob''" and m: "ur_name bob_record = ''Bob''"
    by (simp_all add: bob_record_def)
  have t: "''tok2'' \<noteq> []"
    by simp
  from create_returns_user [of serve_user "''bob''" "''secret''" "''Bob''" bob_record "''tok2''" world0,
      OF s n m t] s n m t show ?thesis
    by blast
qed

section \<open>What addStory and removeStory leave alone\<close>

text \<open>
  Claim C10. On a well-formed list and user, \<open>addStory\<close> leaves the user's username,
  name, loginToken, createdAt, updatedAt and favorites unchanged: the favorites field
  refers to the same array and that array holds what it held. \<open>removeStory\<close> leaves
  the user's username, name, loginToken, createdAt and updatedAt unchanged. Both hold
  for every outcome of the request.
\<close>

theorem story_ops_frame:
  assumes "separated this user w"
  shows "(addStory net this user newStory w = (r, this', user', w')
      \<longrightarrow> username user' = username user \<and> name user' = name user
        \<and> loginToken user' = loginToken user \<and> createdAt user' = createdAt user
        \<and> updatedAt user' = updatedAt user \<and> favorites user' = favorites user
        \<and> heap w' (favorites user') = heap w (favorites user))
 \<and> (removeStory net this user sid w = (r2, this2, user2, w2)
      \<longrightarrow> username user2 = username user \<and> name user2 = name user
        \<and> loginToken user2 = loginToken user \<and> createdAt user2 = createdAt user
        \<and> updatedAt user2 = updatedAt user)"
  using assms
  by (auto simp add: addStory_def removeStory_def axios_def unshift_def array_filter_def
      alloc_def separated_def Let_def split: sum.splits prod.splits response.splits)

text \<open>
  Claim C10, at a concrete input: the feed and \<open>bob\<close> are well-formed in the sample
  world; after \<open>addStory\<close> on the feed \<open>bob\<close>'s favorites still hold \<open>sid1\<close>
  alone, and after \<open>removeStory\<close> \<open>bob\<close> still has his token and his names.
\<close>

theorem story_ops_frame_witness:
  "separated feed bob world0
   \<and> fst (addStory serve_story feed bob (''T'', ''A'', ''U'') world0) = Inr (new_Story record3)
   \<and> heap (snd (snd (snd (addStory serve_story feed bob (''T'', ''A'', ''U'') world0))))
        (favorites (fst (snd (snd (addStory serve_story feed bob (''T'', ''A'', ''U'') world0)))))
       = [story1]
   \<and> loginToken (fst (snd (snd (addStory serve_story feed bob (''T'', ''A'', ''U'') world0))))
       = Str ''tok''
   \<and> fst (removeStory accept feed bob ''sid1'' world0) = Inr ()
   \<and> loginToken (fst (snd (snd (removeStory accept feed bob ''sid1'' world0)))) = Str ''tok''
   \<and> username (fst (snd (snd (removeStory accept feed bob ''sid1'' world0)))) = ''bob''
   \<and> name (fst (snd (snd (removeStory accept feed bob ''sid1'' world0)))) = ''Bob''"
proof -
  let ?AS = "addStory serve_story feed bob (''T'', ''A'', ''U'') world0"
  let ?RS = "removeStory accept feed bob ''sid1'' world0"
  have d: "separated feed bob world0"
    by (simp add: separated_def allocated_def feed_def bob_def world0_def)
  have e1: "fst ?AS = Inr (new_Story record3)"
    by (simp add: addStory_def axios_def serve_story_def Let_def)
  have e2: "fst ?RS = Inr ()"
    by (simp add: removeStory_def axios_def accept_def Let_def split: prod.splits)
  have a: "?AS = (fst ?AS, fst (snd ?AS), fst (snd (snd ?AS)), snd (snd (snd ?AS)))"
    and b: "?RS = (fst ?RS, fst (snd ?RS), fst (snd (snd ?RS)), snd (snd (snd ?RS)))"
    by simp_all
  have h: "heap world0 (favorites bob) = [story1]" "loginToken bob = Str ''tok''"
    "username bob = ''bob''" "name bob = ''Bob''"
    by (simp_all add: world0_def bob_def)
  note t = story_ops_frame [OF d, of serve_story "(''T'', ''A'', ''U'')" "fst ?AS"
      "fst (snd ?AS)" "fst (snd (snd ?AS))" "snd (snd (snd ?AS))"]
  note t2 = story_ops_frame [OF d, of accept _ _ _ _ _ "''sid1''" "fst ?RS"
      "fst (snd ?RS)" "fst (snd (snd ?RS))" "snd (snd (snd ?RS))"]
  have c1: "heap (snd (snd (snd ?AS))) (favorites (fst (snd (snd ?AS))))
      = heap world0 (favorites bob)"
    "loginToken (fst (snd (snd ?AS))) = loginToken bob"
    using t a by blast+
  have c2: "loginToken (fst (snd (snd ?RS))) = loginToken bob"
    "username (fst (snd (snd ?RS))) = username bob" "name (fst (snd (snd ?RS))) = name bob"
    using t2 b by blast+
  from d e1 c1 e2 c2 h show ?thesis
    by simp
qed

end
